theory Spec2Isabelle
  imports Complex_Main
begin

section \<open>The membrane model of \<^verbatim>\<open>tabak.py\<close>\<close>

text \<open>
  Python floats are read as real numbers: every arithmetic operation of the source is the
  exact operation on \<^typ>\<open>real\<close>. Exceptions are values of the type \<open>error\<close>; a function that
  can raise returns \<open>error + 'a\<close>, with \<open>Inl\<close> for the exception.
\<close>

datatype error = ImportError | TypeError | IndexError | ValueError | ZeroDivisionError | IOError

subsection \<open>Module constants and the conductance scaling\<close>

definition dt :: real where
  "dt = 1 / 100"

definition A :: real where
  "A = 31415927 / 10 ^ 13"

definition scale_conductance :: "real \<Rightarrow> real" where
  "scale_conductance G_x = G_x * (1 / 10 ^ 9) / A"

definition c :: real where
  "c = 10 * (1 / 10 ^ 6) / A"

definition alpha :: real where
  "alpha = (15 / 10000) * A * 10 ^ 6"

definition g_l_scaled :: real where
  "g_l_scaled = scale_conductance (2 / 10)"

definition g_K_scaled :: real where
  "g_K_scaled = scale_conductance 3"

definition g_Ca_scaled :: real where
  "g_Ca_scaled = scale_conductance 2"

definition g_SK_scaled :: real where
  "g_SK_scaled = scale_conductance 2"

subsection \<open>The soma and the current clamp\<close>

text \<open>
  \<open>create_soma\<close> configures one section with one segment; the record holds what the
  function assigns. \<open>insert_current_clamp\<close> returns the clamp it configures.
\<close>

record soma =
  L :: real
  diam :: real
  nseg :: nat
  Ra :: real
  cm :: real
  ek :: real
  eCa :: real
  ftau_bk :: real
  alpha_Cadt :: real
  g_pas :: real
  e_pas :: real
  gkdrbar_kdrt :: real
  ghvat_ihvat :: real
  gskbar_sk :: real
  gbk_bk :: real

definition create_soma :: "real \<Rightarrow> real \<Rightarrow> real \<Rightarrow> real \<Rightarrow> real \<Rightarrow> real \<Rightarrow> real \<Rightarrow> soma" where
  "create_soma g_l e_pas0 g_K g_Ca g_SK g_BK tau_BK =
     \<lparr>L = 10, diam = 10, nseg = 1, Ra = 100, cm = c, ek = - 75, eCa = 60,
      ftau_bk = tau_BK, alpha_Cadt = alpha, g_pas = g_l, e_pas = e_pas0,
      gkdrbar_kdrt = g_K, ghvat_ihvat = g_Ca, gskbar_sk = g_SK, gbk_bk = g_BK\<rparr>"

record iclamp =
  delay :: real
  dur :: real
  amp :: real

definition insert_current_clamp :: "real \<Rightarrow> real \<Rightarrow> real \<Rightarrow> iclamp" where
  "insert_current_clamp duration delay0 amplitude =
     \<lparr>delay = delay0, dur = duration, amp = amplitude\<rparr>"

subsection \<open>The simulator and \<open>run_simulation\<close>\<close>

text \<open>
  The integrator is the external engine. It is a parameter of the model: \<open>cvode_run\<close> is the
  adaptive run (\<open>cvode.active(1)\<close>, \<open>neuron.run\<close>) and gives the two recorded vectors;
  \<open>finitialize\<close> gives the engine's state after \<open>nrn.finitialize(-60)\<close> and \<open>neuron.init()\<close>;
  \<open>fadvance\<close> is one fixed step of the engine's state under the clamps as they are then;
  \<open>ref_v\<close> reads the membrane potential at the recording site. The type \<open>'s\<close> of the engine's
  state is arbitrary.
\<close>

record 's engine =
  cvode_run :: "soma \<Rightarrow> iclamp list \<Rightarrow> real \<Rightarrow> real list \<times> real list"
  finitialize :: "soma \<Rightarrow> iclamp list \<Rightarrow> real \<Rightarrow> 's"
  fadvance :: "iclamp list \<Rightarrow> 's \<Rightarrow> 's"
  ref_v :: "'s \<Rightarrow> real"

text \<open>
  The state of a fixed-step run: the time \<open>nrn.t\<close>, the engine's state, and the two
  recording vectors of \<open>record\<close>. One \<open>nrn.fadvance()\<close> advances the time by exactly
  \<open>nrn.dt = dt\<close> and appends one sample to each vector.
\<close>

record 's nrn_state =
  nrn_t :: real
  nrn_st :: 's
  rec_t :: "real list"
  rec_v :: "real list"

definition nrn_fadvance :: "'s engine \<Rightarrow> iclamp list \<Rightarrow> 's nrn_state \<Rightarrow> 's nrn_state" where
  "nrn_fadvance E clamps s =
     (let st' = fadvance E clamps (nrn_st s); t' = nrn_t s + dt
      in \<lparr>nrn_t = t', nrn_st = st', rec_t = rec_t s @ [t'], rec_v = rec_v s @ [ref_v E st']\<rparr>)"

text \<open>
  The loop \<^verbatim>\<open>while nrn.t < simulation_time: noise_stim.amp = noise[i]; nrn.fadvance(); i += 1\<close>.
  Reading \<open>noise[i]\<close> with \<open>i\<close> past the end raises \<open>IndexError\<close>.
\<close>

function noise_loop ::
  "'s engine \<Rightarrow> iclamp \<Rightarrow> iclamp \<Rightarrow> real list \<Rightarrow> real \<Rightarrow> nat \<Rightarrow> 's nrn_state \<Rightarrow> error + 's nrn_state" where
  "noise_loop E stim noise_stim noise simulation_time i s =
     (if nrn_t s < simulation_time then
        (if i < length noise then
           noise_loop E stim (noise_stim\<lparr>amp := noise ! i\<rparr>) noise simulation_time (i + 1)
             (nrn_fadvance E [stim, noise_stim\<lparr>amp := noise ! i\<rparr>] s)
         else Inl IndexError)
      else Inr s)"
  by pat_completeness auto
termination
proof (relation "measure (\<lambda>(E, stim, noise_stim, noise, simulation_time, i, s).
          nat \<lceil>(simulation_time - nrn_t s) / dt\<rceil>)", goal_cases)
  case 1
  show ?case by simp
next
  case (2 E stim noise_stim noise simulation_time i s)
  have step: "(simulation_time - (nrn_t s + dt)) / dt = (simulation_time - nrn_t s) / dt - 1"
    by (simp add: dt_def field_simps)
  have "0 < (simulation_time - nrn_t s) / dt"
    using 2 by (simp add: dt_def)
  then have "0 < \<lceil>(simulation_time - nrn_t s) / dt\<rceil>"
    by simp
  then show ?case
    by (simp add: nrn_fadvance_def Let_def step)
qed

declare noise_loop.simps [simp del]

text \<open>
  The loop keeps the two recording vectors aligned and the recorded times strictly
  increasing and bounded by the current time.
\<close>

definition recording_ok :: "'s nrn_state \<Rightarrow> bool" where
  "recording_ok s \<longleftrightarrow>
     length (rec_t s) = length (rec_v s) \<and> sorted_wrt (<) (rec_t s)
     \<and> list_all (\<lambda>x. x \<le> nrn_t s) (rec_t s)"

text \<open>
  \<open>run_simulation\<close>. The standard normal draws of \<open>np.random.normal\<close> are the parameter
  \<open>normal\<close> (draw number \<open>k\<close> is \<open>normal k\<close>); a negative \<open>size\<close> raises \<open>ValueError\<close>. The
  recording starts with the sample of the initialisation, at time 0.
\<close>

definition run_simulation ::
  "'s engine \<Rightarrow> soma \<Rightarrow> iclamp \<Rightarrow> real \<Rightarrow> real \<Rightarrow> (nat \<Rightarrow> real) \<Rightarrow> error + (real list \<times> real list)" where
  "run_simulation E soma0 stim simulation_time noise_amplitude normal =
     (if noise_amplitude = 0 then Inr (cvode_run E soma0 [stim] simulation_time)
      else
        let noise_stim = insert_current_clamp simulation_time 0 0;
            st0 = finitialize E soma0 [stim, noise_stim] (- 60);
            n_steps = \<lceil>simulation_time / dt\<rceil> + 1
        in if n_steps < 0 then Inl ValueError
           else
             let noise = map (\<lambda>k. noise_amplitude * normal k / sqrt dt) [0..<nat n_steps]
             in case noise_loop E stim noise_stim noise simulation_time 0
                       \<lparr>nrn_t = 0, nrn_st = st0, rec_t = [0], rec_v = [ref_v E st0]\<rparr> of
                  Inl e \<Rightarrow> Inl e
                | Inr s \<Rightarrow> Inr (rec_t s, rec_v s))"

subsection \<open>\<open>tabak\<close>\<close>

text \<open>
  Indexing an array with a boolean mask keeps the entries at the positions where the mask is
  true; a mask of another length raises \<open>IndexError\<close>.
\<close>

definition mask_index :: "bool list \<Rightarrow> 'a list \<Rightarrow> error + 'a list" where
  "mask_index msk xs =
     (if length msk = length xs then Inr (map snd (filter fst (zip msk xs)))
      else Inl IndexError)"

definition tabak ::
  "'s engine \<Rightarrow> (nat \<Rightarrow> real) \<Rightarrow> real \<Rightarrow> real \<Rightarrow> real \<Rightarrow> real \<Rightarrow> real \<Rightarrow> real \<Rightarrow> real \<Rightarrow> real \<Rightarrow> real
     \<Rightarrow> real \<Rightarrow> real \<Rightarrow> error + (real list \<times> real list)" where
  "tabak E normal g_l e_pas0 g_K g_Ca g_SK g_BK tau_BK simulation_time noise_amplitude discard
       stimulus_amplitude =
     (let soma0 = create_soma g_l e_pas0 g_K g_Ca g_SK g_BK tau_BK;
          stim = insert_current_clamp simulation_time 0 stimulus_amplitude
      in case run_simulation E soma0 stim simulation_time noise_amplitude normal of
           Inl e \<Rightarrow> Inl e
         | Inr (time, voltage) \<Rightarrow>
             (case mask_index (map (\<lambda>t. discard < t) time) time of
                Inl e \<Rightarrow> Inl e
              | Inr time' \<Rightarrow>
                  (case mask_index (map (\<lambda>t. discard < t) time) voltage of
                     Inl e \<Rightarrow> Inl e
                   | Inr voltage' \<Rightarrow> Inr (time', voltage'))))"

section \<open>The analysis of \<^verbatim>\<open>analysis.py\<close>\<close>

subsection \<open>Calls with keyword arguments\<close>

text \<open>
  A function defined with plain named parameters accepts a call with \<open>npos\<close> positional
  arguments and the keywords \<open>kws\<close> when there are no more positional arguments than
  parameters, no keyword is given twice, every keyword names a parameter that no positional
  argument has bound, and every parameter without a default is bound. Any other call
  raises \<open>TypeError\<close>.
\<close>

definition accepts :: "string list \<Rightarrow> string list \<Rightarrow> nat \<Rightarrow> string list \<Rightarrow> bool" where
  "accepts params required npos kws \<longleftrightarrow>
     npos \<le> length params \<and> distinct kws
     \<and> list_all (\<lambda>k. k \<in> set params \<and> k \<notin> set (take npos params)) kws
     \<and> list_all (\<lambda>p. p \<in> set (take npos params) \<or> p \<in> set kws) required"

definition scale_conductance_params :: "string list" where
  "scale_conductance_params = [''G_x'']"

text \<open>A call \<open>scale_conductance(...)\<close> with positional arguments only.\<close>

definition scale_conductance_call :: "real list \<Rightarrow> error + real" where
  "scale_conductance_call args =
     (if accepts scale_conductance_params scale_conductance_params (length args) []
      then Inr (scale_conductance (args ! 0)) else Inl TypeError)"

definition tabak_params :: "string list" where
  "tabak_params = [''g_l'', ''e_pas'', ''g_K'', ''g_Ca'', ''g_SK'', ''g_BK'', ''tau_BK'',
     ''simulation_time'', ''noise_amplitude'', ''discard'', ''stimulus_amplitude'']"

definition tabak_defaults :: "(string \<times> real) list" where
  "tabak_defaults = [(''g_l'', g_l_scaled), (''e_pas'', - 50), (''g_K'', g_K_scaled),
     (''g_Ca'', g_Ca_scaled), (''g_SK'', g_SK_scaled), (''g_BK'', 0), (''tau_BK'', 5),
     (''simulation_time'', 5000), (''noise_amplitude'', 0), (''discard'', 0),
     (''stimulus_amplitude'', 0)]"

text \<open>
  A call \<open>tabak(**kwargs)\<close>: the keywords are bound to the parameters, a parameter that is
  not given takes its default.
\<close>

definition tabak_call ::
  "'s engine \<Rightarrow> (nat \<Rightarrow> real) \<Rightarrow> (string \<times> real) list \<Rightarrow> error + (real list \<times> real list)" where
  "tabak_call E normal kwargs =
     (if accepts tabak_params [] 0 (map fst kwargs) then
        let arg = (\<lambda>name. case map_of (kwargs @ tabak_defaults) name of
                             Some x \<Rightarrow> x | None \<Rightarrow> 0)
        in tabak E normal (arg ''g_l'') (arg ''e_pas'') (arg ''g_K'') (arg ''g_Ca'') (arg ''g_SK'')
             (arg ''g_BK'') (arg ''tau_BK'') (arg ''simulation_time'') (arg ''noise_amplitude'')
             (arg ''discard'') (arg ''stimulus_amplitude'')
      else Inl TypeError)"

subsection \<open>The imports\<close>

text \<open>
  The names bound at the top level of \<^verbatim>\<open>tabak.py\<close>, and the names that
  \<^verbatim>\<open>from tabak import ...\<close> asks for in \<^verbatim>\<open>analysis.py\<close>. Importing a name that the
  module does not bind raises \<open>ImportError\<close>.
\<close>

definition tabak_module :: "string list" where
  "tabak_module = [''absolute_import'', ''division'', ''print_function'', ''unicode_literals'',
     ''np'', ''neuron'', ''nrn'', ''dt'', ''A'', ''scale_conductance'', ''c'', ''alpha'',
     ''g_l_scaled'', ''g_K_scaled'', ''g_Ca_scaled'', ''g_SK_scaled'', ''create_soma'',
     ''insert_current_clamp'', ''run_simulation'', ''record'', ''tabak'']"

definition analysis_imports :: "string list" where
  "analysis_imports = [''scale_conductance'', ''tabak'', ''scale_capacitance'', ''scale_alpha'',
     ''scale_tabak'', ''G_l'', ''G_K'', ''G_SK'', ''G_Ca'', ''C'', ''Alpha'']"

definition import_from :: "string list \<Rightarrow> string list \<Rightarrow> error + unit" where
  "import_from module_names names =
     (if list_all (\<lambda>n. n \<in> set module_names) names then Inr () else Inl ImportError)"

text \<open>
  What the imported names that \<^verbatim>\<open>tabak.py\<close> does not define would be bound to is a
  parameter of the model.
\<close>

record tabak_missing =
  G_l :: real
  G_K :: real
  G_SK :: real
  G_Ca :: real
  C :: real
  Alpha :: real
  scale_capacitance :: "real \<Rightarrow> real \<Rightarrow> real"
  scale_alpha :: "real \<Rightarrow> real \<Rightarrow> real"
  scale_tabak :: "real \<Rightarrow> (string \<times> real) list"

subsection \<open>The module \<open>burstiness\<close>\<close>

text \<open>
  The event detector \<open>duration\<close> and the constant \<open>burst_threshold\<close> of the module
  \<open>burstiness\<close> are parameters of the model: any detector, any threshold.
\<close>

record burstiness_module =
  duration :: "real list \<Rightarrow> real list \<Rightarrow> real list"
  burst_threshold :: real

text \<open>
  Modelled from the spec: the function \<open>burstiness\<close> of the module \<open>burstiness\<close>, which is not
  among the source files. The burstiness factor is the fraction of the detected events
  whose duration exceeds the duration threshold. With no event there is no fraction: the
  result is \<open>None\<close>, the value that \<open>robustness\<close> tests for.
\<close>

definition burstiness :: "real \<Rightarrow> real list \<Rightarrow> real option" where
  "burstiness threshold durations =
     (if durations = [] then None
      else Some (real (length (filter (\<lambda>d. threshold < d) durations)) / real (length durations)))"

subsection \<open>Parameters and \<open>calculate_frequency_bf\<close>\<close>

definition discard :: real where
  "discard = 10000"

definition simulation_time :: real where
  "simulation_time = 60000"

definition noise_amplitude :: real where
  "noise_amplitude = 4 / 1000"

definition robustness_reruns :: nat where
  "robustness_reruns = 512"

definition data_folder :: string where
  "data_folder = ''data''"

definition output_file :: string where
  "output_file = ''robustness.txt''"

text \<open>
  \<open>np.histogram(a, bins, range=(lo, hi))\<close> for \<open>lo < hi\<close>: the counts of the \<open>bins\<close> bins of equal
  width, each closed on the left and open on the right but the last, which is closed, and
  the \<open>bins + 1\<close> edges. Values outside the range are not counted.
\<close>

definition histogram :: "real list \<Rightarrow> nat \<Rightarrow> real \<Rightarrow> real \<Rightarrow> nat list \<times> real list" where
  "histogram a bins lo hi =
     (let edge = (\<lambda>k. lo + real k * (hi - lo) / real bins)
      in (map (\<lambda>k. length (filter (\<lambda>x. edge k \<le> x \<and> (x < edge (k + 1) \<or> (k + 1 = bins \<and> x \<le> hi))) a))
            [0..<bins],
          map edge [0..<bins + 1]))"

text \<open>
  \<open>calculate_frequency_bf(**parameters)\<close>. A frequency is \<open>None\<close> where the source divides 0 by
  0 (no event in the range of the histogram), which gives \<open>nan\<close> there.
\<close>

definition calculate_frequency_bf ::
  "'s engine \<Rightarrow> (nat \<Rightarrow> real) \<Rightarrow> burstiness_module \<Rightarrow> (string \<times> real) list
     \<Rightarrow> error + (real list \<times> real option list \<times> real option)" where
  "calculate_frequency_bf E normal B parameters =
     (let nr_bins = 40; hist_range = (0, 200)
      in case tabak_call E normal
                ([(''noise_amplitude'', noise_amplitude), (''discard'', discard),
                  (''simulation_time'', simulation_time)] @ parameters) of
           Inl e \<Rightarrow> Inl e
         | Inr (time, voltage) \<Rightarrow>
             let event_durations = duration B time voltage;
                 (binned_durations, bins) =
                   histogram event_durations nr_bins (fst hist_range) (snd hist_range);
                 frequency = map (\<lambda>n. if sum_list binned_durations = 0 then None
                                       else Some (real n / real (sum_list binned_durations)))
                               binned_durations;
                 burstiness_factor = burstiness (burst_threshold B) event_durations
             in Inr (bins, frequency, burstiness_factor))"

subsection \<open>The robustness sweep\<close>

text \<open>
  \<open>tabak_parallel(parameters)\<close>: the row \<open>parameters\<close> is indexed up to 6, so a shorter row
  raises \<open>IndexError\<close>.
\<close>

definition tabak_parallel ::
  "tabak_missing \<Rightarrow> burstiness_module \<Rightarrow> 's engine \<Rightarrow> (nat \<Rightarrow> real) \<Rightarrow> real list
     \<Rightarrow> error + real option" where
  "tabak_parallel M B E normal parameters =
     (if length parameters < 7 then Inl IndexError
      else
        let A' = parameters ! 5;
            c_scaled = scale_capacitance M (C M) A';
            alpha_scaled = scale_alpha M (Alpha M) A'
        in case tabak_call E normal
                  [(''noise_amplitude'', noise_amplitude), (''discard'', discard),
                   (''simulation_time'', simulation_time), (''g_BK'', parameters ! 0),
                   (''g_K'', parameters ! 1), (''g_Ca'', parameters ! 2),
                   (''g_SK'', parameters ! 3), (''g_l'', parameters ! 4), (''c'', c_scaled),
                   (''alpha'', alpha_scaled), (''A'', A'), (''dt'', parameters ! 6)] of
             Inl e \<Rightarrow> Inl e
           | Inr (time, voltage) \<Rightarrow>
               Inr (burstiness (burst_threshold B) (duration B time voltage)))"

text \<open>
  \<open>np.random.uniform(low, high, size)\<close>: the draws \<open>low + (high - low) * u\<close> for the next
  \<open>size\<close> numbers \<open>u\<close> of the generator, each in \<open>[0, 1)\<close>; the stream of the generator is the
  parameter \<open>u\<close>, read from position \<open>off\<close>.
\<close>

definition uniform :: "(nat \<Rightarrow> real) \<Rightarrow> nat \<Rightarrow> real \<Rightarrow> real \<Rightarrow> nat \<Rightarrow> real list" where
  "uniform u off low high size0 = map (\<lambda>k. low + (high - low) * u (off + k)) [0..<size0]"

text \<open>The rows of the sweep: lines 254 to 263 of \<open>robustness\<close>.\<close>

definition robustness_parameters ::
  "(nat \<Rightarrow> real) \<Rightarrow> real \<Rightarrow> real \<Rightarrow> real \<Rightarrow> real \<Rightarrow> real \<Rightarrow> real \<Rightarrow> real \<Rightarrow> real list list" where
  "robustness_parameters u g_l_scaled' g_K_scaled' g_Ca_scaled' g_SK_scaled' g_BK A' dt' =
     (let g_K = uniform u 0 (g_K_scaled' * (5 / 10)) (g_K_scaled' * (15 / 10)) robustness_reruns;
          g_Ca = uniform u robustness_reruns (g_Ca_scaled' * (5 / 10)) (g_Ca_scaled' * (15 / 10))
                   robustness_reruns;
          g_SK = uniform u (2 * robustness_reruns) (g_SK_scaled' * (5 / 10))
                   (g_SK_scaled' * (15 / 10)) robustness_reruns;
          g_l = uniform u (3 * robustness_reruns) (g_l_scaled' * (5 / 10))
                  (g_l_scaled' * (15 / 10)) robustness_reruns;
          g_BKs = map (\<lambda>x. x * g_BK) (replicate robustness_reruns 1);
          As = map (\<lambda>x. x * A') (replicate robustness_reruns 1);
          dts = map (\<lambda>x. x * dt') (replicate robustness_reruns 1)
      in map (\<lambda>i. [g_BKs ! i, g_K ! i, g_Ca ! i, g_SK ! i, g_l ! i, As ! i, dts ! i])
           [0..<robustness_reruns])"

text \<open>
  \<open>pool.imap(func, iterable)\<close> as the loop consumes it: the results come in the order of the
  rows, and an exception raised in a worker is raised again in the parent where its result
  is due.
\<close>

fun pool_imap :: "('a \<Rightarrow> error + 'b) \<Rightarrow> 'a list \<Rightarrow> error + 'b list" where
  "pool_imap func [] = Inr []"
| "pool_imap func (x # xs) =
     (case func x of
        Inl e \<Rightarrow> Inl e
      | Inr y \<Rightarrow> (case pool_imap func xs of Inl e \<Rightarrow> Inl e | Inr ys \<Rightarrow> Inr (y # ys)))"

text \<open>
  Lines 267 to 286 of \<open>robustness\<close>: the pool runs the worker on every row, the results that
  are not \<open>None\<close> are collected, then the histogram and the two fractions are computed.
  Dividing by the length of an empty collection raises \<open>ZeroDivisionError\<close>.
\<close>

definition robustness_pool ::
  "(real list \<Rightarrow> error + real option) \<Rightarrow> real list list
     \<Rightarrow> error + (real list \<times> nat list \<times> real \<times> real)" where
  "robustness_pool worker parameters =
     (case pool_imap worker parameters of
        Inl e \<Rightarrow> Inl e
      | Inr results \<Rightarrow>
          let burstiness_factors = concat (map (\<lambda>r. case r of None \<Rightarrow> [] | Some x \<Rightarrow> [x]) results);
              (binned_burstiness_factors, bins) = histogram burstiness_factors 10 0 1
          in if length burstiness_factors = 0 then Inl ZeroDivisionError
             else
               let bursters = real (length (filter (\<lambda>x. 5 / 10 < x) burstiness_factors))
                                / real (length burstiness_factors);
                   spikers = real (length (filter (\<lambda>x. x < 3 / 10) burstiness_factors))
                               / real (length burstiness_factors)
               in Inr (bins, binned_burstiness_factors, bursters, spikers))"

definition robustness ::
  "tabak_missing \<Rightarrow> burstiness_module \<Rightarrow> 's engine \<Rightarrow> (nat \<Rightarrow> real) \<Rightarrow> (nat \<Rightarrow> real)
     \<Rightarrow> real \<Rightarrow> real \<Rightarrow> real \<Rightarrow> error + (real list \<times> nat list \<times> real \<times> real)" where
  "robustness M B E normal u g_BK A' dt' =
     (case scale_conductance_call [G_l M, A'] of
        Inl e \<Rightarrow> Inl e
      | Inr g_l_scaled' \<Rightarrow>
     (case scale_conductance_call [G_K M, A'] of
        Inl e \<Rightarrow> Inl e
      | Inr g_K_scaled' \<Rightarrow>
     (case scale_conductance_call [G_Ca M, A'] of
        Inl e \<Rightarrow> Inl e
      | Inr g_Ca_scaled' \<Rightarrow>
     (case scale_conductance_call [G_SK M, A'] of
        Inl e \<Rightarrow> Inl e
      | Inr g_SK_scaled' \<Rightarrow>
          robustness_pool (tabak_parallel M B E normal)
            (robustness_parameters u g_l_scaled' g_K_scaled' g_Ca_scaled' g_SK_scaled' g_BK A' dt')))))"

subsection \<open>Saving and loading the results of figure 2\<close>

text \<open>
  The file system: the directories that exist and the files, by path. A file holds an array
  (written by \<open>np.save\<close>) or text. Writing into a directory that does not exist, and reading a
  path that is no array file, raise \<open>IOError\<close>.
\<close>

datatype ndarray = FloatArray "real list" | IntArray "nat list"

datatype file_content = Npy ndarray | Text string

record filesystem =
  dirs :: "string list"
  files :: "string \<Rightarrow> file_content option"

definition path_join :: "string \<Rightarrow> string \<Rightarrow> string" where
  "path_join a b =
     (if b \<noteq> [] \<and> hd b = CHR ''/'' then b
      else if a = [] \<or> last a = CHR ''/'' then a @ b
      else a @ ''/'' @ b)"

definition dirname :: "string \<Rightarrow> string" where
  "dirname path = rev (drop 1 (dropWhile (\<lambda>ch. ch \<noteq> CHR ''/'') (rev path)))"

definition write_file :: "string \<Rightarrow> file_content \<Rightarrow> filesystem \<Rightarrow> error + filesystem" where
  "write_file path content fs =
     (if dirname path = [] \<or> dirname path \<in> set (dirs fs)
      then Inr (fs\<lparr>files := (files fs)(path \<mapsto> content)\<rparr>) else Inl IOError)"

text \<open>\<open>np.save(file, arr)\<close> appends \<open>.npy\<close> to a file name that does not end with it.\<close>

definition np_save :: "string \<Rightarrow> ndarray \<Rightarrow> filesystem \<Rightarrow> error + filesystem" where
  "np_save file0 arr fs =
     write_file (if drop (length file0 - 4) file0 = ''.npy'' then file0 else file0 @ ''.npy'')
       (Npy arr) fs"

definition np_load :: "string \<Rightarrow> filesystem \<Rightarrow> error + ndarray" where
  "np_load file0 fs = (case files fs file0 of Some (Npy arr) \<Rightarrow> Inr arr | _ \<Rightarrow> Inl IOError)"

text \<open>
  The last part of \<open>generate_data_figure_2\<close> (lines 531 to 552), which the definition of
  \<open>generate_data_figure_2\<close> below ends with: the report and the six arrays are written, and
  the six arrays are returned. The arguments are what the three calls of \<open>robustness\<close> have
  returned; \<open>fmt\<close> is the text that \<open>format\<close> gives for a number.
\<close>

definition generate_data_figure_2_save ::
  "(real \<Rightarrow> string) \<Rightarrow> ndarray \<times> ndarray \<times> real \<times> real \<Rightarrow> ndarray \<times> ndarray \<times> real \<times> real
     \<Rightarrow> ndarray \<times> ndarray \<times> real \<times> real \<Rightarrow> filesystem
     \<Rightarrow> error + (filesystem \<times> ndarray \<times> ndarray \<times> ndarray \<times> ndarray \<times> ndarray \<times> ndarray)" where
  "generate_data_figure_2_save fmt r_0 r_05 r_1 fs =
     (case (r_0, r_05, r_1) of
        ((bins_0, binned_burstiness_factors_0, bursters_0, spikers_0),
         (bins_05, binned_burstiness_factors_05, bursters_05, spikers_05),
         (bins_1, binned_burstiness_factors_1, bursters_1, spikers_1)) \<Rightarrow>
     (case write_file (path_join data_folder output_file)
             (Text (''G_BK = 0\<newline>'' @ ''Spikers = '' @ fmt spikers_0 @ ''\<newline>''
                    @ ''Bursters = '' @ fmt bursters_0 @ ''\<newline>\<newline>''
                    @ ''G_BK = 0.5\<newline>'' @ ''Spikers = '' @ fmt spikers_05 @ ''\<newline>''
                    @ ''Bursters = '' @ fmt bursters_05 @ ''\<newline>\<newline>''
                    @ ''G_BK = 1\<newline>'' @ ''Spikers = '' @ fmt spikers_1 @ ''\<newline>''
                    @ ''Bursters = '' @ fmt bursters_1 @ ''\<newline>'')) fs of
        Inl e \<Rightarrow> Inl e
      | Inr fs1 \<Rightarrow>
     (case np_save (path_join data_folder ''bins_0'') bins_0 fs1 of
        Inl e \<Rightarrow> Inl e
      | Inr fs2 \<Rightarrow>
     (case np_save (path_join data_folder ''bins_05'') bins_05 fs2 of
        Inl e \<Rightarrow> Inl e
      | Inr fs3 \<Rightarrow>
     (case np_save (path_join data_folder ''bins_1'') bins_1 fs3 of
        Inl e \<Rightarrow> Inl e
      | Inr fs4 \<Rightarrow>
     (case np_save (path_join data_folder ''binned_burstiness_factors_0'')
             binned_burstiness_factors_0 fs4 of
        Inl e \<Rightarrow> Inl e
      | Inr fs5 \<Rightarrow>
     (case np_save (path_join data_folder ''binned_burstiness_factors_05'')
             binned_burstiness_factors_05 fs5 of
        Inl e \<Rightarrow> Inl e
      | Inr fs6 \<Rightarrow>
     (case np_save (path_join data_folder ''binned_burstiness_factors_1'')
             binned_burstiness_factors_1 fs6 of
        Inl e \<Rightarrow> Inl e
      | Inr fs7 \<Rightarrow>
          Inr (fs7, bins_0, bins_05, bins_1, binned_burstiness_factors_0,
               binned_burstiness_factors_05, binned_burstiness_factors_1)))))))))"

definition load_results_figure_2 ::
  "filesystem \<Rightarrow> error + (ndarray \<times> ndarray \<times> ndarray \<times> ndarray \<times> ndarray \<times> ndarray)" where
  "load_results_figure_2 fs =
     (case np_load (path_join data_folder ''bins_0.npy'') fs of
        Inl e \<Rightarrow> Inl e
      | Inr bins_0 \<Rightarrow>
     (case np_load (path_join data_folder ''bins_05.npy'') fs of
        Inl e \<Rightarrow> Inl e
      | Inr bins_05 \<Rightarrow>
     (case np_load (path_join data_folder ''bins_1.npy'') fs of
        Inl e \<Rightarrow> Inl e
      | Inr bins_1 \<Rightarrow>
     (case np_load (path_join data_folder ''binned_burstiness_factors_0.npy'') fs of
        Inl e \<Rightarrow> Inl e
      | Inr binned_burstiness_factors_0 \<Rightarrow>
     (case np_load (path_join data_folder ''binned_burstiness_factors_05.npy'') fs of
        Inl e \<Rightarrow> Inl e
      | Inr binned_burstiness_factors_05 \<Rightarrow>
     (case np_load (path_join data_folder ''binned_burstiness_factors_1.npy'') fs of
        Inl e \<Rightarrow> Inl e
      | Inr binned_burstiness_factors_1 \<Rightarrow>
          Inr (bins_0, bins_05, bins_1, binned_burstiness_factors_0,
               binned_burstiness_factors_05, binned_burstiness_factors_1)))))))"




section \<open>Properties of the membrane model\<close>

lemma dt_pos: "0 < dt"
  by (simp add: dt_def)

subsection \<open>The fixed-step loop\<close>

lemma recording_ok_fadvance:
  assumes "recording_ok s"
  shows "recording_ok (nrn_fadvance E clamps s)"
proof -
  have "\<forall>x\<in>set (rec_t s). x < nrn_t s + dt"
    using assms dt_pos by (fastforce simp: recording_ok_def list_all_iff)
  moreover have "\<forall>x\<in>set (rec_t s). x \<le> nrn_t s + dt"
    using calculation by fastforce
  ultimately show ?thesis
    using assms
    by (simp add: recording_ok_def nrn_fadvance_def Let_def sorted_wrt_append list_all_iff)
qed

lemma noise_loop_unfold:
  "noise_loop E stim noise_stim noise simulation_time' i s =
     (if nrn_t s < simulation_time' then
        (if i < length noise then
           noise_loop E stim (noise_stim\<lparr>amp := noise ! i\<rparr>) noise simulation_time' (i + 1)
             (nrn_fadvance E [stim, noise_stim\<lparr>amp := noise ! i\<rparr>] s)
         else Inl IndexError)
      else Inr s)"
  by (rule noise_loop.simps)

lemma noise_loop_recording_ok:
  "recording_ok s \<Longrightarrow> noise_loop E stim noise_stim noise simulation_time' i s = Inr s'
     \<Longrightarrow> recording_ok s'"
proof (induction E stim noise_stim noise simulation_time' i s rule: noise_loop.induct)
  case (1 E stim noise_stim noise simulation_time' i s)
  note unf = noise_loop_unfold [of E stim noise_stim noise simulation_time' i s]
  show ?case
  proof (cases "nrn_t s < simulation_time'")
    case False
    with unf "1.prems" show ?thesis by simp
  next
    case True
    with unf "1.prems"(2) have inb: "i < length noise"
      by (simp split: if_splits)
    from unf "1.prems"(2) True inb
    have run: "noise_loop E stim (noise_stim\<lparr>amp := noise ! i\<rparr>) noise simulation_time' (i + 1)
                 (nrn_fadvance E [stim, noise_stim\<lparr>amp := noise ! i\<rparr>] s) = Inr s'"
      by simp
    show ?thesis
      using "1.IH" [OF True inb recording_ok_fadvance [OF "1.prems"(1)] run] .
  qed
qed

lemma noise_loop_in_bounds:
  "nrn_t s = real i * dt \<Longrightarrow> length noise = nat (\<lceil>simulation_time' / dt\<rceil> + 1)
     \<Longrightarrow> \<exists>s'. noise_loop E stim noise_stim noise simulation_time' i s = Inr s'"
proof (induction E stim noise_stim noise simulation_time' i s rule: noise_loop.induct)
  case (1 E stim noise_stim noise simulation_time' i s)
  note unf = noise_loop_unfold [of E stim noise_stim noise simulation_time' i s]
  show ?case
  proof (cases "nrn_t s < simulation_time'")
    case False
    with unf show ?thesis by simp
  next
    case True
    then have "real i < simulation_time' / dt"
      using "1.prems"(1) dt_pos by (simp add: pos_less_divide_eq)
    then have "int i < \<lceil>simulation_time' / dt\<rceil>"
      by (simp add: less_ceiling_iff)
    then have inb: "i < length noise"
      using "1.prems"(2) by simp
    have t': "nrn_t (nrn_fadvance E [stim, noise_stim\<lparr>amp := noise ! i\<rparr>] s) = real (i + 1) * dt"
      using "1.prems"(1) by (simp add: nrn_fadvance_def Let_def algebra_simps)
    from "1.IH" [OF True inb t' "1.prems"(2)] obtain s' where
      "noise_loop E stim (noise_stim\<lparr>amp := noise ! i\<rparr>) noise simulation_time' (i + 1)
         (nrn_fadvance E [stim, noise_stim\<lparr>amp := noise ! i\<rparr>] s) = Inr s'"
      by blast
    with unf True inb show ?thesis
      by simp
  qed
qed

lemma run_simulation_fixed_step:
  assumes "noise_amplitude' \<noteq> 0"
    and "run_simulation E soma0 stim simulation_time' noise_amplitude' normal = Inr (time, voltage)"
  shows "length time = length voltage \<and> sorted_wrt (<) time"
proof -
  let ?noise_stim = "insert_current_clamp simulation_time' 0 0"
  let ?st0 = "finitialize E soma0 [stim, ?noise_stim] (- 60)"
  let ?s0 = "\<lparr>nrn_t = 0, nrn_st = ?st0, rec_t = [0], rec_v = [ref_v E ?st0]\<rparr>"
  let ?noise = "map (\<lambda>k. noise_amplitude' * normal k / sqrt dt)
                  [0..<nat (\<lceil>simulation_time' / dt\<rceil> + 1)]"
  from assms obtain s where
    loop: "noise_loop E stim ?noise_stim ?noise simulation_time' 0 ?s0 = Inr s"
    and res: "time = rec_t s" "voltage = rec_v s"
    by (auto simp: run_simulation_def Let_def split: if_splits sum.splits)
  have "recording_ok ?s0"
    by (simp add: recording_ok_def)
  from noise_loop_recording_ok [OF this loop] res show ?thesis
    by (simp add: recording_ok_def)
qed

subsection \<open>Boolean-mask indexing\<close>

lemma mask_filter_nth:
  "length xs = length ts \<Longrightarrow>
     map snd (filter fst (zip (map p ts) xs))
       = map ((!) xs) (filter (\<lambda>k. p (ts ! k)) [0..<length ts])"
proof (induction xs ts rule: list_induct2)
  case Nil
  show ?case by simp
next
  case (Cons x xs t ts)
  have upt: "[0..<Suc (length ts)] = 0 # map Suc [0..<length ts]"
    by (simp add: upt_conv_Cons map_Suc_upt del: upt_Suc)
  show ?case
    using Cons.IH by (simp add: upt filter_map o_def del: upt_Suc)
qed

lemma mask_filter_self:
  "map snd (filter fst (zip (map p ts) ts)) = filter p ts"
  by (induction ts) simp_all

lemma tabak_result:
  assumes run: "run_simulation E (create_soma g_l e_pas0 g_K g_Ca g_SK g_BK tau_BK)
                  (insert_current_clamp simulation_time' 0 stimulus_amplitude)
                  simulation_time' noise_amplitude' normal = Inr (time, voltage)"
    and len: "length time = length voltage"
  shows "tabak E normal g_l e_pas0 g_K g_Ca g_SK g_BK tau_BK simulation_time' noise_amplitude'
           discard' stimulus_amplitude
         = Inr (map ((!) time) (filter (\<lambda>k. discard' < time ! k) [0..<length time]),
                map ((!) voltage) (filter (\<lambda>k. discard' < time ! k) [0..<length time]))"
  using mask_filter_nth [of time time "\<lambda>t. discard' < t"]
    mask_filter_nth [of voltage time "\<lambda>t. discard' < t"] len
  by (simp add: tabak_def Let_def run mask_index_def)

subsection \<open>The claims about \<open>tabak\<close> and \<open>run_simulation\<close>\<close>

text \<open>
  Claim C2. For every choice of the conductances, the run duration, the noise setting and
  the discard' value, \<open>tabak\<close> returns the samples of the simulator's trace whose time is
  strictly greater than \<open>discard'\<close>, and no others: the same index list \<open>ks\<close> selects from the time
  and from the voltage array, so the two results have equal length and stay aligned. The
  trace of the simulator is what \<open>run_simulation\<close> returned; for the adaptive run, whose two
  vectors come from the engine, they are taken to have the same length.
\<close>

theorem tabak_discards_transient:
  assumes "run_simulation E (create_soma g_l e_pas0 g_K g_Ca g_SK g_BK tau_BK)
             (insert_current_clamp simulation_time' 0 stimulus_amplitude)
             simulation_time' noise_amplitude' normal = Inr (time, voltage)"
    and "noise_amplitude' = 0 \<Longrightarrow> length time = length voltage"
  shows "let ks = filter (\<lambda>k. discard' < time ! k) [0..<length time]
         in tabak E normal g_l e_pas0 g_K g_Ca g_SK g_BK tau_BK simulation_time' noise_amplitude'
              discard' stimulus_amplitude
            = Inr (map ((!) time) ks, map ((!) voltage) ks)
          \<and> length (map ((!) time) ks) = length (map ((!) voltage) ks)
          \<and> map ((!) time) ks = filter (\<lambda>t. discard' < t) time"
proof -
  have len: "length time = length voltage"
    using assms run_simulation_fixed_step [of noise_amplitude' E _ _ simulation_time' normal time voltage]
    by blast
  have "map ((!) time) (filter (\<lambda>k. discard' < time ! k) [0..<length time])
          = filter (\<lambda>t. discard' < t) time"
    using mask_filter_nth [of time time "\<lambda>t. discard' < t"] by (simp add: mask_filter_self)
  then show ?thesis
    using tabak_result [OF assms(1) len, of discard'] by (simp add: Let_def)
qed

theorem tabak_discards_transient_witness:
  "tabak \<lparr>cvode_run = (\<lambda>soma0 clamps T. ([0, 1, 2, 3], [- 60, - 20, - 55, 0])),
          finitialize = (\<lambda>soma0 clamps v. v), fadvance = (\<lambda>clamps v. v), ref_v = (\<lambda>v. v)\<rparr>
     (\<lambda>k. 0) g_l_scaled (- 50) g_K_scaled g_Ca_scaled g_SK_scaled 0 5 3 0 1 0
   = Inr ([2, 3], [- 55, 0])"
  using tabak_discards_transient [of
      "\<lparr>cvode_run = (\<lambda>soma0 clamps T. ([0, 1, 2, 3], [- 60, - 20, - 55, 0])),
        finitialize = (\<lambda>soma0 clamps v. v), fadvance = (\<lambda>clamps v. v), ref_v = (\<lambda>v. v)\<rparr>"
      g_l_scaled "- 50" g_K_scaled g_Ca_scaled g_SK_scaled 0 5 3 0 0 "\<lambda>k. 0"
      "[0, 1, 2, 3]" "[- 60, - 20, - 55, 0]" 1]
  by (simp add: run_simulation_def Let_def)

text \<open>
  Claim C6. The time sequence that \<open>tabak\<close> returns is strictly increasing. For a fixed-step
  run (with noise) this follows from the loop; for the adaptive run it holds whenever the
  time vector recorded by the engine is strictly increasing: dropping the samples up to
  \<open>discard'\<close> keeps the order.
\<close>

theorem tabak_time_strictly_increasing:
  assumes "run_simulation E (create_soma g_l e_pas0 g_K g_Ca g_SK g_BK tau_BK)
             (insert_current_clamp simulation_time' 0 stimulus_amplitude)
             simulation_time' noise_amplitude' normal = Inr (time, voltage)"
    and "noise_amplitude' = 0 \<Longrightarrow> length time = length voltage \<and> sorted_wrt (<) time"
  shows "\<exists>time' voltage'.
           tabak E normal g_l e_pas0 g_K g_Ca g_SK g_BK tau_BK simulation_time' noise_amplitude'
             discard' stimulus_amplitude = Inr (time', voltage')
           \<and> sorted_wrt (<) time'"
proof -
  have ok: "length time = length voltage \<and> sorted_wrt (<) time"
    using assms run_simulation_fixed_step [of noise_amplitude' E _ _ simulation_time' normal time voltage]
    by blast
  have "map ((!) time) (filter (\<lambda>k. discard' < time ! k) [0..<length time])
          = filter (\<lambda>t. discard' < t) time"
    using mask_filter_nth [of time time "\<lambda>t. discard' < t"] by (simp add: mask_filter_self)
  moreover have "sorted_wrt (<) (filter (\<lambda>t. discard' < t) time)"
    using ok by (simp add: sorted_wrt_filter)
  ultimately show ?thesis
    using tabak_result [OF assms(1), of discard'] ok by simp
qed

theorem tabak_time_strictly_increasing_witness:
  "\<exists>time' voltage'.
     tabak \<lparr>cvode_run = (\<lambda>soma0 clamps T. ([0, 1 / 2, 2, 3], [- 60, - 20, - 55, 0])),
            finitialize = (\<lambda>soma0 clamps v. v), fadvance = (\<lambda>clamps v. v), ref_v = (\<lambda>v. v)\<rparr>
       (\<lambda>k. 0) g_l_scaled (- 50) g_K_scaled g_Ca_scaled g_SK_scaled 0 5 3 0 1 0
       = Inr (time', voltage')
     \<and> sorted_wrt (<) time'"
  using tabak_time_strictly_increasing [of
      "\<lparr>cvode_run = (\<lambda>soma0 clamps T. ([0, 1 / 2, 2, 3], [- 60, - 20, - 55, 0])),
        finitialize = (\<lambda>soma0 clamps v. v), fadvance = (\<lambda>clamps v. v), ref_v = (\<lambda>v. v)\<rparr>"
      g_l_scaled "- 50" g_K_scaled g_Ca_scaled g_SK_scaled 0 5 3 0 0 "\<lambda>k. 0"
      "[0, 1 / 2, 2, 3]" "[- 60, - 20, - 55, 0]" 1]
  by (simp add: run_simulation_def Let_def)

text \<open>
  Claim C10. In the fixed-step run the read \<open>noise[i]\<close> is in bounds on every iteration: started
  at time 0 with \<open>i = 0\<close> and an array of \<open>n_steps = ceil(simulation_time' / dt) + 1\<close> entries, the
  loop ends without \<open>IndexError\<close>, each \<open>fadvance\<close> advancing the time by exactly \<open>dt\<close>; and
  \<open>run_simulation\<close> never raises \<open>IndexError\<close>.
\<close>

theorem noise_index_in_bounds:
  assumes "length noise = nat (\<lceil>simulation_time' / dt\<rceil> + 1)"
    and "nrn_t s = 0"
  shows "(\<exists>s'. noise_loop E stim noise_stim noise simulation_time' 0 s = Inr s')
         \<and> run_simulation E soma0 stim simulation_time' noise_amplitude' normal \<noteq> Inl IndexError"
proof
  show "\<exists>s'. noise_loop E stim noise_stim noise simulation_time' 0 s = Inr s'"
    using noise_loop_in_bounds [of s 0 noise simulation_time' E stim noise_stim] assms by simp
next
  let ?noise_stim = "insert_current_clamp simulation_time' 0 0"
  let ?st0 = "finitialize E soma0 [stim, ?noise_stim] (- 60)"
  let ?s0 = "\<lparr>nrn_t = 0, nrn_st = ?st0, rec_t = [0], rec_v = [ref_v E ?st0]\<rparr>"
  let ?noise = "map (\<lambda>k. noise_amplitude' * normal k / sqrt dt)
                  [0..<nat (\<lceil>simulation_time' / dt\<rceil> + 1)]"
  obtain s' where "noise_loop E stim ?noise_stim ?noise simulation_time' 0 ?s0 = Inr s'"
    using noise_loop_in_bounds [of ?s0 0 ?noise simulation_time' E stim ?noise_stim] by auto
  then show "run_simulation E soma0 stim simulation_time' noise_amplitude' normal \<noteq> Inl IndexError"
    by (simp add: run_simulation_def Let_def)
qed

theorem noise_index_in_bounds_witness:
  "(\<exists>s'. noise_loop
            \<lparr>cvode_run = (\<lambda>soma0 clamps T. ([], [])), finitialize = (\<lambda>soma0 clamps v. v),
             fadvance = (\<lambda>clamps v. v + amp (clamps ! 1)), ref_v = (\<lambda>v. v)\<rparr>
            (insert_current_clamp (2 / 100) 0 0) (insert_current_clamp (2 / 100) 0 0)
            [1, 2, 3] (2 / 100) 0
            \<lparr>nrn_t = 0, nrn_st = - 60, rec_t = [0], rec_v = [- 60]\<rparr> = Inr s')
   \<and> run_simulation
        \<lparr>cvode_run = (\<lambda>soma0 clamps T. ([], [])), finitialize = (\<lambda>soma0 clamps v. v),
         fadvance = (\<lambda>clamps v. v + amp (clamps ! 1)), ref_v = (\<lambda>v. v)\<rparr>
        (create_soma g_l_scaled (- 50) g_K_scaled g_Ca_scaled g_SK_scaled 0 5)
        (insert_current_clamp (2 / 100) 0 0) (2 / 100) (4 / 1000) (\<lambda>k. 1) \<noteq> Inl IndexError"
  using noise_index_in_bounds [of "[1, 2, 3]" "2 / 100"
      "\<lparr>nrn_t = 0, nrn_st = - 60, rec_t = [0], rec_v = [- 60]\<rparr>"
      "\<lparr>cvode_run = (\<lambda>soma0 clamps T. ([], [])), finitialize = (\<lambda>soma0 clamps v. v),
        fadvance = (\<lambda>clamps v. v + amp (clamps ! 1)), ref_v = (\<lambda>v. v)\<rparr>"
      "insert_current_clamp (2 / 100) 0 0" "insert_current_clamp (2 / 100) 0 0"
      "create_soma g_l_scaled (- 50) g_K_scaled g_Ca_scaled g_SK_scaled 0 5" "4 / 1000" "\<lambda>k. 1"]
  by (simp add: dt_def)


section \<open>Properties of the analysis\<close>

subsection \<open>The interface between \<^verbatim>\<open>analysis.py\<close> and \<^verbatim>\<open>tabak.py\<close>\<close>

lemma scale_conductance_two_arguments:
  "scale_conductance_call [G_x, A'] = Inl TypeError"
  by (simp add: scale_conductance_call_def accepts_def scale_conductance_params_def)

lemma tabak_rejects_area_and_step:
  "tabak_call E normal
     ([(''noise_amplitude'', noise_amplitude), (''discard'', discard),
       (''simulation_time'', simulation_time), (''A'', A'), (''dt'', dt')] @ parameters)
   = Inl TypeError"
  by (simp add: tabak_call_def accepts_def tabak_params_def)

text \<open>
  Claim C5 does not hold of the code. The import of \<^verbatim>\<open>analysis.py\<close> asks \<^verbatim>\<open>tabak.py\<close> for names
  that it does not bind, so it raises \<open>ImportError\<close>; every call of \<open>scale_conductance\<close> in
  \<^verbatim>\<open>analysis.py\<close> passes two positional arguments to a function of one parameter; the calls
  of \<open>tabak\<close> in \<open>figure_1\<close> pass the keywords \<open>A\<close> and \<open>dt\<close>, and the call in \<open>tabak_parallel\<close>
  passes \<open>c\<close>, \<open>alpha\<close>, \<open>A\<close> and \<open>dt\<close>, none of which is a parameter of \<open>tabak\<close>: each of these
  calls raises \<open>TypeError\<close>.
\<close>

theorem analysis_breaks_tabak_interface:
  "import_from tabak_module analysis_imports = Inl ImportError
   \<and> scale_conductance_call [G_x, A'] = Inl TypeError
   \<and> tabak_call E normal
        ([(''noise_amplitude'', noise_amplitude), (''discard'', discard),
          (''simulation_time'', simulation_time), (''A'', A'), (''dt'', dt')] @ parameters)
      = Inl TypeError
   \<and> tabak_parallel M B E normal [g_BK, g_K, g_Ca, g_SK, g_l, A', dt'] = Inl TypeError"
proof -
  have "import_from tabak_module analysis_imports = Inl ImportError"
    by (simp add: import_from_def tabak_module_def analysis_imports_def)
  moreover have "tabak_parallel M B E normal [g_BK, g_K, g_Ca, g_SK, g_l, A', dt'] = Inl TypeError"
    by (simp add: tabak_parallel_def tabak_call_def accepts_def tabak_params_def Let_def)
  ultimately show ?thesis
    using scale_conductance_two_arguments tabak_rejects_area_and_step by blast
qed

subsection \<open>The robustness sweep\<close>

text \<open>
  The rows that \<open>robustness\<close> would hand to the pool: \<open>robustness_reruns\<close> rows, each with the
  given \<open>g_BK\<close>, \<open>A\<close> and \<open>dt\<close> and with each of the four conductances between half and one and a
  half times its scaled value.
\<close>

lemma robustness_parameters_rows:
  assumes "i < robustness_reruns"
  shows "length (robustness_parameters u g_l_scaled' g_K_scaled' g_Ca_scaled' g_SK_scaled' g_BK A' dt')
           = robustness_reruns
         \<and> robustness_parameters u g_l_scaled' g_K_scaled' g_Ca_scaled' g_SK_scaled' g_BK A' dt' ! i
           = [g_BK,
              g_K_scaled' * (5 / 10) + g_K_scaled' * u i,
              g_Ca_scaled' * (5 / 10) + g_Ca_scaled' * u (robustness_reruns + i),
              g_SK_scaled' * (5 / 10) + g_SK_scaled' * u (2 * robustness_reruns + i),
              g_l_scaled' * (5 / 10) + g_l_scaled' * u (3 * robustness_reruns + i),
              A', dt']"
  using assms by (simp add: robustness_parameters_def uniform_def Let_def algebra_simps del: upt_Suc)

text \<open>
  Claim C4 does not hold of the code: \<open>robustness\<close> calls \<open>scale_conductance(G_l, A)\<close>, with two
  arguments, before it draws anything, so every call of \<open>robustness\<close> raises \<open>TypeError\<close>: no
  model is evaluated and no histogram is built.
\<close>

theorem robustness_raises:
  "robustness M B E normal u g_BK A' dt' = Inl TypeError"
  by (simp add: robustness_def scale_conductance_two_arguments)

subsection \<open>Saving and loading\<close>

text \<open>
  What the last part of \<open>generate_data_figure_2\<close> writes is what \<open>load_results_figure_2\<close>
  reads: when the data folder exists, the six arrays are saved under six different names,
  and loading from the resulting file system returns them in the same order.
\<close>

lemma save_load_round_trip:
  assumes "data_folder \<in> set (dirs fs)"
  shows "\<exists>fs'. generate_data_figure_2_save fmt
                 (bins_0, binned_burstiness_factors_0, bursters_0, spikers_0)
                 (bins_05, binned_burstiness_factors_05, bursters_05, spikers_05)
                 (bins_1, binned_burstiness_factors_1, bursters_1, spikers_1) fs
               = Inr (fs', bins_0, bins_05, bins_1, binned_burstiness_factors_0,
                      binned_burstiness_factors_05, binned_burstiness_factors_1)
             \<and> load_results_figure_2 fs'
               = Inr (bins_0, bins_05, bins_1, binned_burstiness_factors_0,
                      binned_burstiness_factors_05, binned_burstiness_factors_1)"
  using assms
  by (simp add: generate_data_figure_2_save_def load_results_figure_2_def np_save_def np_load_def
      write_file_def path_join_def dirname_def data_folder_def output_file_def)


subsection \<open>The burstiness factor\<close>

lemma run_simulation_fixed_returns:
  assumes "noise_amplitude' \<noteq> 0" and "0 \<le> simulation_time'"
  shows "\<exists>time voltage.
           run_simulation E soma0 stim simulation_time' noise_amplitude' normal = Inr (time, voltage)"
proof -
  let ?noise_stim = "insert_current_clamp simulation_time' 0 0"
  let ?st0 = "finitialize E soma0 [stim, ?noise_stim] (- 60)"
  let ?s0 = "\<lparr>nrn_t = 0, nrn_st = ?st0, rec_t = [0], rec_v = [ref_v E ?st0]\<rparr>"
  let ?noise = "map (\<lambda>k. noise_amplitude' * normal k / sqrt dt)
                  [0..<nat (\<lceil>simulation_time' / dt\<rceil> + 1)]"
  have "0 \<le> simulation_time' / dt"
    using assms(2) dt_pos by simp
  then have "0 \<le> \<lceil>simulation_time' / dt\<rceil>"
    by (simp add: zero_le_ceiling)
  then have n_steps: "\<not> \<lceil>simulation_time' / dt\<rceil> + 1 < 0"
    by linarith
  obtain s' where "noise_loop E stim ?noise_stim ?noise simulation_time' 0 ?s0 = Inr s'"
    using noise_loop_in_bounds [of ?s0 0 ?noise simulation_time' E stim ?noise_stim] by auto
  then show ?thesis
    using assms(1) n_steps by (simp add: run_simulation_def Let_def)
qed

lemma tabak_fixed_returns:
  assumes "noise_amplitude' \<noteq> 0" and "0 \<le> simulation_time'"
  shows "\<exists>time voltage.
           tabak E normal g_l e_pas0 g_K g_Ca g_SK g_BK tau_BK simulation_time' noise_amplitude'
             discard' stimulus_amplitude = Inr (time, voltage)"
proof -
  obtain time voltage where
    run: "run_simulation E (create_soma g_l e_pas0 g_K g_Ca g_SK g_BK tau_BK)
            (insert_current_clamp simulation_time' 0 stimulus_amplitude)
            simulation_time' noise_amplitude' normal = Inr (time, voltage)"
    using run_simulation_fixed_returns [OF assms] by blast
  have "length time = length voltage"
    using run_simulation_fixed_step [OF assms(1) run] by simp
  from tabak_result [OF run this] show ?thesis
    by blast
qed

lemma tabak_call_analysis:
  "tabak_call E normal
     [(''noise_amplitude'', noise_amplitude), (''discard'', discard),
      (''simulation_time'', simulation_time)]
   = tabak E normal g_l_scaled (- 50) g_K_scaled g_Ca_scaled g_SK_scaled 0 5 simulation_time
       noise_amplitude discard 0"
  by (simp add: tabak_call_def accepts_def tabak_params_def tabak_defaults_def)

text \<open>
  Claim C1. Whenever \<open>tabak\<close> returns a trace in which at least one event is detected,
  \<open>calculate_frequency_bf\<close> returns a burstiness factor: one number, equal to the number of
  detected events whose duration exceeds the duration threshold divided by the number of
  detected events, and between 0 and 1.
\<close>

theorem burstiness_factor_is_fraction:
  assumes "tabak_call E normal
             ([(''noise_amplitude'', noise_amplitude), (''discard'', discard),
               (''simulation_time'', simulation_time)] @ parameters) = Inr (time, voltage)"
    and "duration B time voltage \<noteq> []"
  shows "\<exists>bins frequency f.
           calculate_frequency_bf E normal B parameters = Inr (bins, frequency, Some f)
           \<and> f = real (length (filter (\<lambda>d. burst_threshold B < d) (duration B time voltage)))
                   / real (length (duration B time voltage))
           \<and> 0 \<le> f \<and> f \<le> 1"
proof -
  let ?events = "duration B time voltage"
  let ?f = "real (length (filter (\<lambda>d. burst_threshold B < d) ?events)) / real (length ?events)"
  have "length (filter (\<lambda>d. burst_threshold B < d) ?events) \<le> length ?events"
    by simp
  moreover have "0 < length ?events"
    using assms(2) by simp
  ultimately have range: "0 \<le> ?f \<and> ?f \<le> 1"
    by (simp add: divide_le_eq_1)
  have "calculate_frequency_bf E normal B parameters
          = Inr (snd (histogram ?events 40 0 200),
                 map (\<lambda>n. if sum_list (fst (histogram ?events 40 0 200)) = 0 then None
                           else Some (real n / real (sum_list (fst (histogram ?events 40 0 200)))))
                   (fst (histogram ?events 40 0 200)),
                 Some ?f)"
    using assms by (simp add: calculate_frequency_bf_def Let_def burstiness_def split_beta)
  with range show ?thesis
    by blast
qed

theorem burstiness_factor_is_fraction_witness:
  "\<exists>bins frequency.
     calculate_frequency_bf
       \<lparr>cvode_run = (\<lambda>soma0 clamps T. ([], [])), finitialize = (\<lambda>soma0 clamps v. v),
        fadvance = (\<lambda>clamps v. v + amp (clamps ! 1)), ref_v = (\<lambda>v. v)\<rparr>
       (\<lambda>k. 1) \<lparr>duration = (\<lambda>time voltage. [30, 100]), burst_threshold = 60\<rparr> []
     = Inr (bins, frequency, Some (1 / 2))"
proof -
  let ?E = "\<lparr>cvode_run = (\<lambda>soma0 clamps T. ([], [])), finitialize = (\<lambda>soma0 clamps v. v),
             fadvance = (\<lambda>clamps v. v + amp (clamps ! 1)), ref_v = (\<lambda>v. v)\<rparr>
            :: real engine"
  let ?B = "\<lparr>duration = (\<lambda>time voltage. [30, 100]), burst_threshold = 60\<rparr>"
  have noise: "noise_amplitude \<noteq> 0"
    by (simp add: noise_amplitude_def)
  have time: "0 \<le> simulation_time"
    by (simp add: simulation_time_def)
  obtain time voltage where
    "tabak_call ?E (\<lambda>k. 1)
       ([(''noise_amplitude'', noise_amplitude), (''discard'', discard),
         (''simulation_time'', simulation_time)] @ []) = Inr (time, voltage)"
    using tabak_fixed_returns [OF noise time, of ?E "\<lambda>k. 1" g_l_scaled "- 50" g_K_scaled
        g_Ca_scaled g_SK_scaled 0 5 discard 0]
    by (auto simp only: tabak_call_analysis append_Nil2)
  from burstiness_factor_is_fraction [OF this, of ?B] show ?thesis
    by auto
qed

end
